theory Spec2Isabelle
  imports Complex_Main
begin

section \<open>The authentication views of system/views/auth.py\<close>

text \<open>
  The file embeds \<^verbatim>\<open>save_login_log\<close>, \<^verbatim>\<open>RegisterView.post\<close>,
  \<^verbatim>\<open>LoginView.post\<close> and \<^verbatim>\<open>LogoutView.post\<close> of
  \<^verbatim>\<open>src/system/views/auth.py\<close>. The views are glue: they call helpers of
  \<^verbatim>\<open>system.utils\<close>, \<^verbatim>\<open>common.utils\<close>, Django and simplejwt whose code is not
  among the sources. Each such helper is a parameter of the model (a field of the records
  \<open>deps\<close> and \<open>ledger_ops\<close>), so a theorem about a view holds for every behaviour of the
  helpers; where a claim needs what a helper does, the helper is modelled from the
  specification and marked so.
\<close>

subsection \<open>Exceptions and results\<close>

text \<open>
  Instances of Python's \<^verbatim>\<open>Exception\<close>: what \<^verbatim>\<open>except Exception\<close> catches.
  A call either returns a value or raises.
\<close>

datatype exn =
    KeyError string
  | IndexError
  | ValueError
  | ValidationError string
  | AuthenticationFailed
  | AuthChallengeError string
  | AccountLockedError
  | TokenError string

datatype 'a res = Ret 'a | Raise exn

fun returns :: "'a res \<Rightarrow> bool" where
  "returns (Ret _) = True"
| "returns (Raise _) = False"

subsection \<open>Data\<close>

datatype jval = JStr string | JInt int

record UserInfo =
  pk :: int
  username :: string
  password :: string
  first_name :: string
  nickname :: string
  is_active :: bool
  last_login :: "real option"
  dept :: "int option"
  dept_belong :: "int option"

record DeptInfo =
  dept_pk :: int
  dept_code :: string
  dept_is_active :: bool
  auto_bind :: bool

text \<open>
  A request: the header map \<^verbatim>\<open>request.META\<close>, the body \<^verbatim>\<open>request.data\<close> and
  \<^verbatim>\<open>request.user\<close>, which the views assign before the audit write.
\<close>

record request =
  META :: "string \<rightharpoonup> string"
  data :: "string \<rightharpoonup> string"
  user :: "UserInfo option"

text \<open>
  \<^verbatim>\<open>request.auth\<close> of an authenticated request: the access token simplejwt has verified,
  so its payload carries the \<^verbatim>\<open>exp\<close> and \<^verbatim>\<open>user_id\<close> claims.
\<close>

record access_token =
  exp :: int
  user_id :: int
  token :: string

text \<open>
  \<^verbatim>\<open>ApiResponse(code=..., detail=..., data=...)\<close>: the keyword arguments the view passes;
  \<open>None\<close> is an argument left out (the class, with its defaults, is not among the sources).
\<close>

record ApiResponse =
  code :: "int option"
  detail :: "string option"
  resp_data :: "(string \<rightharpoonup> jval) option"

datatype LoginTypeChoices = USERNAME

record login_log_data =
  ipaddress :: string
  browser :: string
  system :: string
  status :: bool
  agent :: string
  login_type :: LoginTypeChoices

record settings =
  SECURITY_REGISTER_ACCESS_ENABLED :: bool
  SECURITY_REGISTER_TEMP_TOKEN_ENABLED :: bool
  SECURITY_REGISTER_CAPTCHA_ENABLED :: bool
  SECURITY_REGISTER_ENCRYPTED_ENABLED :: bool
  SECURITY_LOGIN_ACCESS_ENABLED :: bool
  SECURITY_LOGIN_TEMP_TOKEN_ENABLED :: bool
  SECURITY_LOGIN_CAPTCHA_ENABLED :: bool
  SECURITY_LOGIN_ENCRYPTED_ENABLED :: bool
  SECURITY_LOGIN_LIMIT_TIME :: int

subsection \<open>Effects: the world and the calls a view makes\<close>

text \<open>
  Every call of a view to a stateful collaborator is recorded, in order, with its
  arguments.
\<close>

datatype event =
    Ev_check_is_block string string
  | Ev_is_valid string string
  | Ev_login_log_save "UserInfo option" login_log_data
  | Ev_incr_failed_count string string
  | Ev_set_block_if_need string
  | Ev_clean_failed_count string string
  | Ev_clean_block_if_need string
  | Ev_create_user string string
  | Ev_user_save UserInfo "string list"
  | Ev_for_user UserInfo
  | Ev_set_storage_cache int string int real
  | Ev_RefreshToken string
  | Ev_blacklist string

text \<open>
  The world a request runs in: the trace of calls, the block ledger (of a type \<open>'l\<close> the
  views never look into), the user and department tables, the access-token blacklist
  (key \<open>(user_id, token hash)\<close>, entry \<open>(value, expiry time)\<close>) and the clock that
  \<^verbatim>\<open>time.time()\<close> and \<^verbatim>\<open>timezone.now()\<close> read. Time is a real number of seconds;
  each view reads the clock once.
\<close>

record 'l world =
  trace :: "event list"
  ledger :: 'l
  users :: "UserInfo list"
  depts :: "DeptInfo list"
  black_access :: "(int \<times> string) \<rightharpoonup> (int \<times> real)"
  clock :: real

type_synonym ('a, 'l) act = "'l world \<Rightarrow> 'a res \<times> 'l world"

definition ret :: "'a \<Rightarrow> ('a, 'l) act" where
  "ret x = (\<lambda>w. (Ret x, w))"

definition raise_exn :: "exn \<Rightarrow> ('a, 'l) act" where
  "raise_exn e = (\<lambda>w. (Raise e, w))"

definition lift_res :: "'a res \<Rightarrow> ('a, 'l) act" where
  "lift_res r = (\<lambda>w. (r, w))"

text \<open>Sequencing: a raise leaves the rest of the body unexecuted.\<close>

definition bnd :: "('a, 'l) act \<Rightarrow> ('a \<Rightarrow> ('b, 'l) act) \<Rightarrow> ('b, 'l) act" where
  "bnd m f = (\<lambda>w. case m w of (Ret x, w') \<Rightarrow> f x w' | (Raise e, w') \<Rightarrow> (Raise e, w'))"

text \<open>
  \<^verbatim>\<open>try: m  except Exception as e: h\<close> followed by \<open>k\<close>, for a handler that returns from
  the function.
\<close>

definition try_except :: "('a, 'l) act \<Rightarrow> (exn \<Rightarrow> ('b, 'l) act) \<Rightarrow> ('a \<Rightarrow> ('b, 'l) act) \<Rightarrow> ('b, 'l) act" where
  "try_except m h k = (\<lambda>w. case m w of (Ret x, w') \<Rightarrow> k x w' | (Raise e, w') \<Rightarrow> h e w')"

definition emit :: "event \<Rightarrow> (unit, 'l) act" where
  "emit ev = (\<lambda>w. (Ret (), w\<lparr>trace := trace w @ [ev]\<rparr>))"

definition on_ledger :: "('l \<Rightarrow> 'a res \<times> 'l) \<Rightarrow> ('a, 'l) act" where
  "on_ledger f = (\<lambda>w. case f (ledger w) of (r, l') \<Rightarrow> (r, w\<lparr>ledger := l'\<rparr>))"

subsection \<open>The collaborators\<close>

text \<open>
  The helpers of \<^verbatim>\<open>system.utils.security\<close> and \<^verbatim>\<open>system.utils.view\<close> that read and
  write the block ledger: the function \<^verbatim>\<open>check_is_block(username, ipaddr)\<close>, three methods
  of \<^verbatim>\<open>LoginBlockUtil(username, ipaddr)\<close> and two of \<^verbatim>\<open>LoginIpBlockUtil(ipaddr)\<close>,
  each with its object's constructor arguments.
\<close>

record 'l ledger_ops =
  check_is_block :: "string \<Rightarrow> string \<Rightarrow> 'l \<Rightarrow> unit res \<times> 'l"
  incr_failed_count :: "string \<Rightarrow> string \<Rightarrow> 'l \<Rightarrow> 'l"
  get_remainder_times :: "string \<Rightarrow> string \<Rightarrow> 'l \<Rightarrow> int"
  clean_failed_count :: "string \<Rightarrow> string \<Rightarrow> 'l \<Rightarrow> 'l"
  set_block_if_need :: "string \<Rightarrow> 'l \<Rightarrow> 'l"
  clean_block_if_need :: "string \<Rightarrow> 'l \<Rightarrow> 'l"

text \<open>
  The other helpers, as the outcome each has for the request at hand.
  \<open>get_request_ip\<close>, \<open>get_browser\<close> and \<open>get_os\<close> read the headers of the request;
  \<open>parse\<close> is \<^verbatim>\<open>str(parse(...))\<close> of the user-agent library;
  \<open>login_log_is_valid\<close> is \<^verbatim>\<open>UserLoginLogSerializer(...).is_valid(raise_exception=True)\<close>;
  \<open>is_valid\<close> is the token-pair serializer's \<^verbatim>\<open>is_valid(raise_exception=True)\<close>, the
  credential verification, returning \<^verbatim>\<open>validated_data\<close> and \<^verbatim>\<open>serializer.user\<close>;
  \<open>for_user\<close> is \<^verbatim>\<open>RefreshToken.for_user\<close>, giving \<^verbatim>\<open>str(refresh)\<close> and
  \<^verbatim>\<open>str(refresh.access_token)\<close>; \<open>md5_hexdigest\<close> is
  \<^verbatim>\<open>hashlib.md5(...).hexdigest()\<close>; \<open>RefreshToken_init\<close> and \<open>blacklist\<close> are the
  constructor \<^verbatim>\<open>RefreshToken(...)\<close> and \<^verbatim>\<open>token.blacklist()\<close>.
\<close>

record deps =
  get_request_ip :: "(string \<rightharpoonup> string) \<Rightarrow> string"
  get_browser :: "(string \<rightharpoonup> string) \<Rightarrow> string"
  get_os :: "(string \<rightharpoonup> string) \<Rightarrow> string"
  parse :: "string \<Rightarrow> string"
  login_log_is_valid :: "login_log_data \<Rightarrow> unit res"
  check_token_and_captcha :: "request \<Rightarrow> bool \<Rightarrow> bool \<Rightarrow> (string \<times> string option) res"
  get_username_password :: "bool \<Rightarrow> request \<Rightarrow> string option \<Rightarrow> (string \<times> string) res"
  check_password_rules :: "string \<Rightarrow> bool"
  is_valid :: "UserInfo list \<Rightarrow> string \<Rightarrow> string \<Rightarrow> ((string \<rightharpoonup> jval) \<times> UserInfo) res"
  get_token_lifetime :: "UserInfo \<Rightarrow> (string \<rightharpoonup> jval)"
  for_user :: "UserInfo \<Rightarrow> string \<times> string"
  md5_hexdigest :: "string \<Rightarrow> string"
  RefreshToken_init :: "string \<Rightarrow> unit res"
  blacklist :: "string \<Rightarrow> unit res"

subsection \<open>Python's \<^verbatim>\<open>str\<close> of an integer and \<^verbatim>\<open>str.format\<close>\<close>

fun str_nat :: "nat \<Rightarrow> string" where
  "str_nat n =
     (if n < 10 then [''0123456789'' ! n]
      else str_nat (n div 10) @ [''0123456789'' ! (n mod 10)])"

declare str_nat.simps [simp del]

definition str_int :: "int \<Rightarrow> string" where
  "str_int i = (if i < 0 then CHR ''-'' # str_nat (nat (- i)) else str_nat (nat i))"

text \<open>
  \<^verbatim>\<open>template.format(*args, **kw)\<close> for templates whose replacement fields are
  \<^verbatim>\<open>{}\<close> (the next positional argument) and \<^verbatim>\<open>{name}\<close> (a keyword argument), which
  is what the two messages of \<^verbatim>\<open>LoginView.post\<close> use; the arguments come already
  converted by \<^verbatim>\<open>str\<close>. The first argument is the field name read so far, or \<open>None\<close>
  outside a field.
\<close>

fun format_from :: "string option \<Rightarrow> string \<Rightarrow> string list \<Rightarrow> (string \<times> string) list \<Rightarrow> string res" where
  "format_from None [] args kw = Ret []"
| "format_from (Some f) [] args kw = Raise ValueError"
| "format_from None (c # cs) args kw =
     (if c = CHR ''{'' then format_from (Some []) cs args kw
      else if c = CHR ''}'' then Raise ValueError
      else (case format_from None cs args kw of
              Ret s \<Rightarrow> Ret (c # s)
            | Raise e \<Rightarrow> Raise e))"
| "format_from (Some f) (c # cs) args kw =
     (if c = CHR ''}'' then
        (case (if f = [] then (case args of [] \<Rightarrow> Raise IndexError | a # _ \<Rightarrow> Ret a)
               else (case map_of kw f of None \<Rightarrow> Raise (KeyError f) | Some v \<Rightarrow> Ret v)) of
           Raise e \<Rightarrow> Raise e
         | Ret v \<Rightarrow>
             (case format_from None cs (if f = [] then tl args else args) kw of
                Ret s \<Rightarrow> Ret (v @ s)
              | Raise e \<Rightarrow> Raise e))
      else format_from (Some (f @ [c])) cs args kw)"

definition format :: "string \<Rightarrow> string list \<Rightarrow> (string \<times> string) list \<Rightarrow> string res" where
  "format template args kw = format_from None template args kw"

subsection \<open>\<^verbatim>\<open>save_login_log\<close> (auth.py, lines 32 to 43)\<close>

text \<open>
  The dictionary is built first: \<^verbatim>\<open>request.META['HTTP_USER_AGENT']\<close> is a subscript, so
  a request without the header raises \<^verbatim>\<open>KeyError\<close> there. Then the serializer
  validates (and may raise), then it saves. The gettext marker \<^verbatim>\<open>_\<close> of the views is
  left out throughout: a message is its untranslated literal.
\<close>

definition login_log_dict :: "deps \<Rightarrow> (string \<rightharpoonup> string) \<Rightarrow> LoginTypeChoices \<Rightarrow> bool \<Rightarrow> login_log_data res" where
  "login_log_dict env meta ltype st =
     (case meta ''HTTP_USER_AGENT'' of
        None \<Rightarrow> Raise (KeyError ''HTTP_USER_AGENT'')
      | Some ua \<Rightarrow>
          Ret \<lparr>ipaddress = get_request_ip env meta,
               browser = get_browser env meta,
               system = get_os env meta,
               status = st,
               agent = parse env ua,
               login_type = ltype\<rparr>)"

definition save_login_log :: "deps \<Rightarrow> request \<Rightarrow> LoginTypeChoices \<Rightarrow> bool \<Rightarrow> (unit, 'l) act" where
  "save_login_log env request ltype st =
     bnd (lift_res (login_log_dict env (META request) ltype st))
       (\<lambda>d. bnd (lift_res (login_log_is_valid env d))
       (\<lambda>_. emit (Ev_login_log_save (user request) d)))"

text \<open>Lines 33 to 42 alone: the record that would be saved, or the error raised before.\<close>

definition validated_login_log :: "deps \<Rightarrow> (string \<rightharpoonup> string) \<Rightarrow> LoginTypeChoices \<Rightarrow> bool \<Rightarrow> login_log_data res" where
  "validated_login_log env meta ltype st =
     (case login_log_dict env meta ltype st of
        Raise e \<Rightarrow> Raise e
      | Ret d \<Rightarrow> (case login_log_is_valid env d of Raise e \<Rightarrow> Raise e | Ret _ \<Rightarrow> Ret d))"

subsection \<open>The challenge gate and the credential decoder\<close>

text \<open>
  Both views open with \<^verbatim>\<open>check_token_and_captcha\<close> followed by
  \<^verbatim>\<open>get_username_password\<close>, each under its own three settings: the submitted
  username and password, or the error of the gate or of the decoder.
\<close>

definition credentials :: "deps \<Rightarrow> request \<Rightarrow> bool \<Rightarrow> bool \<Rightarrow> bool \<Rightarrow> (string \<times> string) res" where
  "credentials env request temp_token captcha encrypted =
     (case check_token_and_captcha env request temp_token captcha of
        Raise e \<Rightarrow> Raise e
      | Ret (client_id, tok) \<Rightarrow> get_username_password env encrypted request tok)"

definition login_credentials :: "settings \<Rightarrow> deps \<Rightarrow> request \<Rightarrow> (string \<times> string) res" where
  "login_credentials conf env request =
     credentials env request (SECURITY_LOGIN_TEMP_TOKEN_ENABLED conf)
       (SECURITY_LOGIN_CAPTCHA_ENABLED conf) (SECURITY_LOGIN_ENCRYPTED_ENABLED conf)"

definition register_credentials :: "settings \<Rightarrow> deps \<Rightarrow> request \<Rightarrow> (string \<times> string) res" where
  "register_credentials conf env request =
     credentials env request (SECURITY_REGISTER_TEMP_TOKEN_ENABLED conf)
       (SECURITY_REGISTER_CAPTCHA_ENABLED conf) (SECURITY_REGISTER_ENCRYPTED_ENABLED conf)"

subsection \<open>\<^verbatim>\<open>LoginView.post\<close> (auth.py, lines 125 to 169)\<close>

definition first_by_username :: "UserInfo list \<Rightarrow> string option \<Rightarrow> UserInfo option" where
  \<comment> \<open>\<^verbatim>\<open>UserInfo.objects.filter(username=...).first()\<close>\<close>
  "first_by_username us name =
     (case name of None \<Rightarrow> None | Some n \<Rightarrow> find (\<lambda>u. username u = n) us)"

definition msg_try_again :: string where
  "msg_try_again =
     ''The username or password you entered is incorrect, '' @
     ''please enter it again. '' @
     ''You can also try {times_try} times '' @
     ''(The account will be temporarily locked for {block_time} minutes)''"

definition msg_locked :: string where
  "msg_locked =
     ''The account has been locked (please contact admin to unlock it or try'' @
     '' again after {} minutes)''"

text \<open>The handler of the \<^verbatim>\<open>except\<close> clause, lines 144 to 160.\<close>

definition login_failed ::
  "settings \<Rightarrow> deps \<Rightarrow> 'l ledger_ops \<Rightarrow> request \<Rightarrow> string \<Rightarrow> string \<Rightarrow> (ApiResponse, 'l) act" where
  "login_failed conf env lops request uname ipaddr =
     (\<lambda>w0.
       (let request = request\<lparr>user := first_by_username (users w0) (data request ''username'')\<rparr>
        in bnd (save_login_log env request USERNAME False)
          (\<lambda>_. bnd (emit (Ev_incr_failed_count uname ipaddr))
          (\<lambda>_. bnd (on_ledger (\<lambda>l. (Ret (), incr_failed_count lops uname ipaddr l)))
          (\<lambda>_. bnd (emit (Ev_set_block_if_need ipaddr))
          (\<lambda>_. bnd (on_ledger (\<lambda>l. (Ret (), set_block_if_need lops ipaddr l)))
          (\<lambda>_. bnd (on_ledger (\<lambda>l. (Ret (get_remainder_times lops uname ipaddr l), l)))
          (\<lambda>times_remainder.
             bnd (lift_res
                   (if times_remainder > 0
                    then format msg_try_again []
                           [(''times_try'', str_int times_remainder),
                            (''block_time'', str_int (SECURITY_LOGIN_LIMIT_TIME conf))]
                    else format msg_locked [str_int (SECURITY_LOGIN_LIMIT_TIME conf)] []))
          (\<lambda>d. ret \<lparr>code = Some 9999, detail = Some d, resp_data = None\<rparr>)))))))) w0)"

text \<open>The continuation after the \<^verbatim>\<open>try\<close>, lines 161 to 169.\<close>

definition login_succeeded ::
  "deps \<Rightarrow> 'l ledger_ops \<Rightarrow> request \<Rightarrow> string \<Rightarrow> string \<Rightarrow> (string \<rightharpoonup> jval) \<times> UserInfo \<Rightarrow> (ApiResponse, 'l) act" where
  "login_succeeded env lops request uname ipaddr v =
     (case v of (validated_data, serializer_user) \<Rightarrow>
       (let rdata = validated_data ++ get_token_lifetime env serializer_user;
            request = request\<lparr>user := Some serializer_user\<rparr>
        in bnd (save_login_log env request USERNAME True)
          (\<lambda>_. bnd (emit (Ev_clean_failed_count uname ipaddr))
          (\<lambda>_. bnd (on_ledger (\<lambda>l. (Ret (), clean_failed_count lops uname ipaddr l)))
          (\<lambda>_. bnd (emit (Ev_clean_block_if_need ipaddr))
          (\<lambda>_. bnd (on_ledger (\<lambda>l. (Ret (), clean_block_if_need lops ipaddr l)))
          (\<lambda>_. ret \<lparr>code = None, detail = None, resp_data = Some rdata\<rparr>)))))))"

definition LoginView_post ::
  "settings \<Rightarrow> deps \<Rightarrow> 'l ledger_ops \<Rightarrow> request \<Rightarrow> (ApiResponse, 'l) act" where
  "LoginView_post conf env lops request =
     (if \<not> SECURITY_LOGIN_ACCESS_ENABLED conf
      then ret \<lparr>code = Some 1001, detail = Some ''Login forbidden'', resp_data = None\<rparr>
      else
        (let ipaddr = get_request_ip env (META request)
         in bnd (lift_res (login_credentials conf env request))
           (\<lambda>(uname, pw). bnd (emit (Ev_check_is_block uname ipaddr))
           (\<lambda>_. bnd (on_ledger (check_is_block lops uname ipaddr))
           (\<lambda>_. try_except
                   (bnd (emit (Ev_is_valid uname pw))
                      (\<lambda>_ w. (is_valid env (users w) uname pw, w)))
                   (\<lambda>e. login_failed conf env lops request uname ipaddr)
                   (login_succeeded env lops request uname ipaddr))))))"

subsection \<open>\<^verbatim>\<open>RegisterView.post\<close> (auth.py, lines 71 to 109)\<close>

text \<open>
  Django's part, on the user table of the world: \<^verbatim>\<open>auth.authenticate\<close> with the model
  backend (the user of that name, when the password checks and the user is active),
  \<^verbatim>\<open>create_user\<close>, the two department queries and \<^verbatim>\<open>user.save(update_fields=...)\<close>,
  which writes the named fields of the instance to its row. A stored password is the
  password itself.
\<close>

definition authenticate :: "UserInfo list \<Rightarrow> string \<Rightarrow> string \<Rightarrow> UserInfo option" where
  "authenticate us uname pw =
     (case find (\<lambda>u. username u = uname) us of
        None \<Rightarrow> None
      | Some u \<Rightarrow> if password u = pw \<and> is_active u then Some u else None)"

definition next_pk :: "UserInfo list \<Rightarrow> int" where
  "next_pk us = fold max (map pk us) 0 + 1"

definition create_user :: "string \<Rightarrow> string \<Rightarrow> string \<Rightarrow> string \<Rightarrow> (UserInfo, 'l) act" where
  "create_user uname pw fname nick =
     (\<lambda>w. (let u = \<lparr>pk = next_pk (users w), username = uname, password = pw,
                     first_name = fname, nickname = nick, is_active = True,
                     last_login = None, dept = None, dept_belong = None\<rparr>
            in (Ret u, w\<lparr>trace := trace w @ [Ev_create_user uname pw],
                          users := users w @ [u]\<rparr>)))"

definition auto_bind_dept :: "DeptInfo list \<Rightarrow> string \<Rightarrow> DeptInfo option" where
  "auto_bind_dept ds channel =
     (case find (\<lambda>d. dept_is_active d \<and> auto_bind d \<and> dept_code d = channel) ds of
        Some d \<Rightarrow> Some d
      | None \<Rightarrow> find (\<lambda>d. dept_is_active d \<and> auto_bind d) ds)"

definition write_fields :: "string list \<Rightarrow> UserInfo \<Rightarrow> UserInfo \<Rightarrow> UserInfo" where
  "write_fields names u row =
     row\<lparr>last_login := (if ''last_login'' \<in> set names then last_login u else last_login row),
         dept := (if ''dept'' \<in> set names then dept u else dept row),
         dept_belong := (if ''dept_belong'' \<in> set names then dept_belong u else dept_belong row)\<rparr>"

definition user_save :: "UserInfo \<Rightarrow> string list \<Rightarrow> (unit, 'l) act" where
  "user_save u update_fields =
     (\<lambda>w. (Ret (), w\<lparr>trace := trace w @ [Ev_user_save u update_fields],
                      users := map (\<lambda>row. if pk row = pk u then write_fields update_fields u row else row)
                                 (users w)\<rparr>))"

text \<open>Lines 85 to 97: the user to log in, and the fields to save.\<close>

definition user_to_register :: "string \<Rightarrow> string \<Rightarrow> string \<Rightarrow> (UserInfo \<times> string list, 'l) act" where
  "user_to_register channel uname pw =
     (\<lambda>w0.
       (case authenticate (users w0) uname pw of
          Some u \<Rightarrow> ret (u, [''last_login''])
        | None \<Rightarrow>
            bnd (create_user uname pw uname uname)
              (\<lambda>u w.
                 if channel \<noteq> []
                 then (case auto_bind_dept (depts w) channel of
                         Some d \<Rightarrow>
                           (Ret (u\<lparr>dept := Some (dept_pk d), dept_belong := Some (dept_pk d)\<rparr>,
                                 [''last_login'', ''dept_belong'', ''dept'']), w)
                       | None \<Rightarrow> (Ret (u, [''last_login'']), w))
                 else (Ret (u, [''last_login'']), w))) w0)"

text \<open>Lines 99 to 109: the tokens, the save, the audit record, the response.\<close>

definition issue_and_log :: "deps \<Rightarrow> request \<Rightarrow> UserInfo \<times> string list \<Rightarrow> (ApiResponse, 'l) act" where
  "issue_and_log env request uf =
     (case uf of (u, update_fields) \<Rightarrow>
        bnd (emit (Ev_for_user u))
          (\<lambda>_ w.
             (let result = [''refresh'' \<mapsto> JStr (fst (for_user env u)),
                            ''access'' \<mapsto> JStr (snd (for_user env u))];
                  u = u\<lparr>last_login := Some (clock w)\<rparr>
              in bnd (user_save u update_fields)
                   (\<lambda>_. (let result = result ++ get_token_lifetime env u;
                              request = request\<lparr>user := Some u\<rparr>
                          in bnd (save_login_log env request USERNAME True)
                               (\<lambda>_. ret \<lparr>code = None, detail = None, resp_data = Some result\<rparr>))) w)))"

definition RegisterView_post :: "settings \<Rightarrow> deps \<Rightarrow> request \<Rightarrow> (ApiResponse, 'l) act" where
  "RegisterView_post conf env request =
     (if \<not> SECURITY_REGISTER_ACCESS_ENABLED conf
      then ret \<lparr>code = Some 1001, detail = Some ''Registration forbidden'', resp_data = None\<rparr>
      else
        (let channel = (case data request ''channel'' of None \<Rightarrow> ''default'' | Some c \<Rightarrow> c)
         in bnd (lift_res (register_credentials conf env request))
           (\<lambda>(uname, pw) w.
              if \<not> check_password_rules env pw
              then (Ret \<lparr>code = Some 1001,
                         detail = Some ''Password does not match security rules'',
                         resp_data = None\<rparr>, w)
              else if length (filter (\<lambda>u. username u = uname) (users w)) \<noteq> 0
              then (Ret \<lparr>code = Some 1002,
                         detail = Some ''The username already exists, please try another one'',
                         resp_data = None\<rparr>, w)
              else bnd (user_to_register channel uname pw) (issue_and_log env request) w)))"

subsection \<open>\<^verbatim>\<open>LogoutView.post\<close> (auth.py, lines 194 to 209)\<close>

record auth_request = request +
  auth :: access_token

text \<open>
  Modelled from the spec: \<^verbatim>\<open>BlackAccessTokenCache(user_id, hash).set_storage_cache(value, timeout)\<close>
  of \<^verbatim>\<open>common.cache.storage\<close>, which is not among the sources. The entry is keyed by
  \<open>(user_id, token_hash)\<close>, holds a sentinel value and is valid for \<open>timeout\<close> seconds
  from now.
\<close>

definition set_storage_cache :: "int \<Rightarrow> string \<Rightarrow> int \<Rightarrow> real \<Rightarrow> (unit, 'l) act" where
  "set_storage_cache uid h v timeout =
     (\<lambda>w. (Ret (), w\<lparr>trace := trace w @ [Ev_set_storage_cache uid h v timeout],
                      black_access := (black_access w)((uid, h) \<mapsto> (v, clock w + timeout))\<rparr>))"

text \<open>Lines 203 to 208: the refresh token, when the body carries a truthy one.\<close>

definition revoke_refresh :: "deps \<Rightarrow> string option \<Rightarrow> (unit, 'l) act" where
  "revoke_refresh env refresh =
     (case refresh of
        None \<Rightarrow> ret ()
      | Some r \<Rightarrow>
          if r = [] then ret ()
          else try_except
                 (bnd (emit (Ev_RefreshToken r))
                    (\<lambda>_. bnd (lift_res (RefreshToken_init env r))
                    (\<lambda>_. bnd (emit (Ev_blacklist r))
                    (\<lambda>_. lift_res (blacklist env r)))))
                 (\<lambda>e. ret ())
                 (\<lambda>_. ret ()))"

definition LogoutView_post :: "deps \<Rightarrow> auth_request \<Rightarrow> (ApiResponse, 'l) act" where
  "LogoutView_post env request =
     (\<lambda>w0.
       (let timeout = real_of_int (exp (auth request)) - clock w0
        in bnd (set_storage_cache (user_id (auth request))
                  (md5_hexdigest env (token (auth request))) 1 timeout)
             (\<lambda>_. bnd (revoke_refresh env (data request ''refresh''))
             (\<lambda>_. ret \<lparr>code = None, detail = None, resp_data = None\<rparr>))) w0)"

subsection \<open>The block ledger of the specification\<close>

text \<open>
  Modelled from the spec: the code of \<^verbatim>\<open>check_is_block\<close>, \<^verbatim>\<open>LoginBlockUtil\<close> and
  \<^verbatim>\<open>LoginIpBlockUtil\<close> (\<^verbatim>\<open>system.utils.view\<close>, \<^verbatim>\<open>system.utils.security\<close>) is not
  among the sources. A BlockRecord per identity key (username or IP) holds
  \<open>failed_count\<close> and an optional \<open>blocked_until\<close>; a block is live while
  \<open>blocked_until\<close> lies in the future. The thresholds and the block durations (in
  minutes) are configuration, distinct for usernames and IPs.
\<close>

record BlockRecord =
  failed_count :: int
  blocked_until :: "real option"

record block_ledger =
  by_username :: "string \<Rightarrow> BlockRecord"
  by_ip :: "string \<Rightarrow> BlockRecord"
  now :: real

record block_conf =
  username_threshold :: int
  username_block_minutes :: int
  ip_threshold :: int
  ip_block_minutes :: int

definition no_record :: BlockRecord where
  "no_record = \<lparr>failed_count = 0, blocked_until = None\<rparr>"

definition live_block :: "real \<Rightarrow> BlockRecord \<Rightarrow> bool" where
  "live_block t r = (case blocked_until r of None \<Rightarrow> False | Some until \<Rightarrow> t < until)"

text \<open>
  Modelled from the spec: \<open>check_is_blocked(username, ip)\<close> fails with AccountLockedError
  if either the username's or the IP's BlockRecord has a live \<open>blocked_until\<close>.
\<close>

definition check_is_blocked :: "string \<Rightarrow> string \<Rightarrow> block_ledger \<Rightarrow> unit res \<times> block_ledger" where
  "check_is_blocked uname ip l =
     (if live_block (now l) (by_username l uname) \<or> live_block (now l) (by_ip l ip)
      then (Raise AccountLockedError, l)
      else (Ret (), l))"

text \<open>
  Modelled from the spec: \<open>on_failure\<close> increments a key's \<open>failed_count\<close>; a count that
  reaches the key's threshold sets \<open>blocked_until = now + block_duration\<close>.
\<close>

definition on_failure_key :: "int \<Rightarrow> int \<Rightarrow> real \<Rightarrow> BlockRecord \<Rightarrow> BlockRecord" where
  "on_failure_key threshold minutes t r =
     (let c = failed_count r + 1
      in \<lparr>failed_count = c,
          blocked_until = (if threshold \<le> c then Some (t + 60 * real_of_int minutes)
                           else blocked_until r)\<rparr>)"

text \<open>
  Modelled from the spec: \<open>remaining_attempts(username)\<close> returns
  \<open>max(0, threshold - failed_count)\<close>.
\<close>

definition remaining_attempts :: "block_conf \<Rightarrow> string \<Rightarrow> block_ledger \<Rightarrow> int" where
  "remaining_attempts bc uname l = max 0 (username_threshold bc - failed_count (by_username l uname))"

text \<open>
  Modelled from the spec: the ledger helpers the views call. \<open>on_failure(username, ip)\<close>
  is \<open>incr_failed_count\<close> for the username followed by \<open>set_block_if_need\<close> for the IP;
  \<open>on_success(username, ip)\<close> (clears both counters and any block flags) is
  \<open>clean_failed_count\<close> followed by \<open>clean_block_if_need\<close>.
\<close>

definition spec_ledger_ops :: "block_conf \<Rightarrow> block_ledger ledger_ops" where
  "spec_ledger_ops bc =
     \<lparr>check_is_block = check_is_blocked,
      incr_failed_count = (\<lambda>uname ip l.
        l\<lparr>by_username := (by_username l)
             (uname := on_failure_key (username_threshold bc) (username_block_minutes bc) (now l)
                         (by_username l uname))\<rparr>),
      get_remainder_times = (\<lambda>uname ip l. remaining_attempts bc uname l),
      clean_failed_count = (\<lambda>uname ip l. l\<lparr>by_username := (by_username l)(uname := no_record)\<rparr>),
      set_block_if_need = (\<lambda>ip l.
        l\<lparr>by_ip := (by_ip l)
             (ip := on_failure_key (ip_threshold bc) (ip_block_minutes bc) (now l) (by_ip l ip))\<rparr>),
      clean_block_if_need = (\<lambda>ip l. l\<lparr>by_ip := (by_ip l)(ip := no_record)\<rparr>)\<rparr>"

text \<open>
  The submitted username (what the decoder returns for the request) or the origin IP has
  a live block.
\<close>

definition has_live_block :: "settings \<Rightarrow> deps \<Rightarrow> request \<Rightarrow> block_ledger \<Rightarrow> bool" where
  "has_live_block conf env request l =
     (live_block (now l) (by_ip l (get_request_ip env (META request))) \<or>
      (case login_credentials conf env request of
         Ret (uname, pw) \<Rightarrow> live_block (now l) (by_username l uname)
       | Raise e \<Rightarrow> False))"

subsection \<open>Reading a trace\<close>

fun is_ledger_update :: "event \<Rightarrow> bool" where
  "is_ledger_update (Ev_incr_failed_count _ _) = True"
| "is_ledger_update (Ev_set_block_if_need _) = True"
| "is_ledger_update (Ev_clean_failed_count _ _) = True"
| "is_ledger_update (Ev_clean_block_if_need _) = True"
| "is_ledger_update _ = False"

fun is_audit_write :: "event \<Rightarrow> bool" where
  "is_audit_write (Ev_login_log_save _ _) = True"
| "is_audit_write _ = False"

fun is_verification :: "event \<Rightarrow> bool" where
  "is_verification (Ev_is_valid _ _) = True"
| "is_verification _ = False"


fun is_blacklist_insert :: "event \<Rightarrow> bool" where
  "is_blacklist_insert (Ev_set_storage_cache _ _ _ _) = True"
| "is_blacklist_insert _ = False"

text \<open>
  \<open>each_after p q seen es\<close>: in \<open>es\<close>, every event satisfying \<open>q\<close> comes after some event
  satisfying \<open>p\<close> (or \<open>seen\<close> holds: one came earlier).
\<close>

fun each_after :: "(event \<Rightarrow> bool) \<Rightarrow> (event \<Rightarrow> bool) \<Rightarrow> bool \<Rightarrow> event list \<Rightarrow> bool" where
  "each_after p q seen [] = True"
| "each_after p q seen (e # es) = ((if q e then seen else True) \<and> each_after p q (seen \<or> p e) es)"

text \<open>The calls a view makes in a world: the trace it leaves, started from an empty one.\<close>

definition calls :: "('a, 'l) act \<Rightarrow> 'l world \<Rightarrow> event list" where
  "calls m w = trace (snd (m (w\<lparr>trace := []\<rparr>)))"

definition outcome :: "('a, 'l) act \<Rightarrow> 'l world \<Rightarrow> 'a res" where
  "outcome m w = fst (m w)"

definition after :: "('a, 'l) act \<Rightarrow> 'l world \<Rightarrow> 'l world" where
  "after m w = snd (m w)"

subsection \<open>A sample deployment\<close>

definition sample_conf :: settings where
  "sample_conf =
     \<lparr>SECURITY_REGISTER_ACCESS_ENABLED = True,
      SECURITY_REGISTER_TEMP_TOKEN_ENABLED = False,
      SECURITY_REGISTER_CAPTCHA_ENABLED = True,
      SECURITY_REGISTER_ENCRYPTED_ENABLED = False,
      SECURITY_LOGIN_ACCESS_ENABLED = True,
      SECURITY_LOGIN_TEMP_TOKEN_ENABLED = False,
      SECURITY_LOGIN_CAPTCHA_ENABLED = True,
      SECURITY_LOGIN_ENCRYPTED_ENABLED = False,
      SECURITY_LOGIN_LIMIT_TIME = 30\<rparr>"

definition sample_deps :: deps where
  "sample_deps =
     \<lparr>get_request_ip = (\<lambda>m. case m ''REMOTE_ADDR'' of None \<Rightarrow> [] | Some a \<Rightarrow> a),
      get_browser = (\<lambda>m. ''Firefox''),
      get_os = (\<lambda>m. ''Linux''),
      parse = (\<lambda>ua. ua),
      login_log_is_valid = (\<lambda>d. if ipaddress d = [] then Raise (ValidationError ''ipaddress'')
                                  else Ret ()),
      check_token_and_captcha = (\<lambda>r t c.
        if c \<and> data r ''captcha_code'' \<noteq> Some ''k7pq''
        then Raise (AuthChallengeError ''invalid captcha'')
        else Ret (''client-1'', None)),
      get_username_password = (\<lambda>enc r tok.
        case data r ''username'' of
          None \<Rightarrow> Raise (ValidationError ''username'')
        | Some u \<Rightarrow> (case data r ''password'' of
                       None \<Rightarrow> Raise (ValidationError ''password'')
                     | Some p \<Rightarrow> Ret (u, p))),
      check_password_rules = (\<lambda>p. 8 \<le> length p),
      is_valid = (\<lambda>us u p.
        case authenticate us u p of
          None \<Rightarrow> Raise AuthenticationFailed
        | Some x \<Rightarrow> Ret ([''refresh'' \<mapsto> JStr (''r-'' @ u), ''access'' \<mapsto> JStr (''a-'' @ u)], x)),
      get_token_lifetime = (\<lambda>u. [''access_token_lifetime'' \<mapsto> JInt 3600,
                                  ''refresh_token_lifetime'' \<mapsto> JInt 86400]),
      for_user = (\<lambda>u. (''r-'' @ username u, ''a-'' @ username u)),
      md5_hexdigest = (\<lambda>s. ''md5-'' @ s),
      RefreshToken_init = (\<lambda>s. if s = ''r-alice'' then Ret ()
                                 else Raise (TokenError ''Token is invalid or expired'')),
      blacklist = (\<lambda>s. Ret ())\<rparr>"

definition sample_block_conf :: block_conf where
  "sample_block_conf =
     \<lparr>username_threshold = 5, username_block_minutes = 30,
      ip_threshold = 20, ip_block_minutes = 60\<rparr>"

definition alice :: UserInfo where
  "alice = \<lparr>pk = 1, username = ''alice'', password = ''correct horse'',
            first_name = ''alice'', nickname = ''alice'', is_active = True,
            last_login = None, dept = None, dept_belong = None\<rparr>"

definition sample_ledger :: block_ledger where
  "sample_ledger = \<lparr>by_username = (\<lambda>_. no_record), by_ip = (\<lambda>_. no_record), now = 1000\<rparr>"

definition sample_world :: "block_ledger world" where
  "sample_world =
     \<lparr>trace = [], ledger = sample_ledger, users = [alice],
      depts = [\<lparr>dept_pk = 7, dept_code = ''default'', dept_is_active = True, auto_bind = True\<rparr>],
      black_access = Map.empty, clock = 1000\<rparr>"

text \<open>
  The same world with \<open>n\<close> failures counted for alice and \<open>m\<close> for the address 1.2.3.4,
  neither blocked.
\<close>

definition world_after_failures :: "int \<Rightarrow> int \<Rightarrow> block_ledger world" where
  "world_after_failures n m =
     sample_world\<lparr>ledger := sample_ledger
       \<lparr>by_username := (\<lambda>_. no_record)(''alice'' := \<lparr>failed_count = n, blocked_until = None\<rparr>),
        by_ip := (\<lambda>_. no_record)(''1.2.3.4'' := \<lparr>failed_count = m, blocked_until = None\<rparr>)\<rparr>\<rparr>"

text \<open>The same world after alice's fifth failure at time 1000: locked until 2800.\<close>

definition locked_world :: "block_ledger world" where
  "locked_world =
     sample_world\<lparr>ledger := sample_ledger\<lparr>by_username :=
       (\<lambda>_. no_record)(''alice'' := \<lparr>failed_count = 5, blocked_until = Some 2800\<rparr>)\<rparr>\<rparr>"

text \<open>
  Requests from 1.2.3.4 with the captcha solved: a login of alice with a password, with
  and without a \<^verbatim>\<open>User-Agent\<close> header.
\<close>

definition login_request :: "string \<Rightarrow> request" where
  "login_request pw =
     \<lparr>META = [''REMOTE_ADDR'' \<mapsto> ''1.2.3.4'', ''HTTP_USER_AGENT'' \<mapsto> ''Mozilla/5.0''],
      data = [''username'' \<mapsto> ''alice'', ''password'' \<mapsto> pw, ''captcha_code'' \<mapsto> ''k7pq''],
      user = None\<rparr>"

definition login_request_no_agent :: "string \<Rightarrow> request" where
  "login_request_no_agent pw = (login_request pw)\<lparr>META := [''REMOTE_ADDR'' \<mapsto> ''1.2.3.4'']\<rparr>"

text \<open>A login of alice from a request whose address the IP helper cannot read.\<close>

definition login_request_no_address :: "string \<Rightarrow> request" where
  "login_request_no_address pw = (login_request pw)\<lparr>META := [''HTTP_USER_AGENT'' \<mapsto> ''Mozilla/5.0'']\<rparr>"

text \<open>A registration of bob from 5.6.7.8, with and without a \<^verbatim>\<open>User-Agent\<close> header.\<close>

definition register_request :: "string \<Rightarrow> request" where
  "register_request pw =
     \<lparr>META = [''REMOTE_ADDR'' \<mapsto> ''5.6.7.8'', ''HTTP_USER_AGENT'' \<mapsto> ''curl/8.0''],
      data = [''username'' \<mapsto> ''bob'', ''password'' \<mapsto> pw, ''captcha_code'' \<mapsto> ''k7pq''],
      user = None\<rparr>"

definition register_request_no_agent :: "string \<Rightarrow> request" where
  "register_request_no_agent pw = (register_request pw)\<lparr>META := [''REMOTE_ADDR'' \<mapsto> ''5.6.7.8'']\<rparr>"

text \<open>
  A logout of alice at time 1000 with an access token that expires at 1600, and a
  refresh token in the body.
\<close>

definition logout_request :: "string \<Rightarrow> auth_request" where
  "logout_request refresh =
     \<lparr>META = [''REMOTE_ADDR'' \<mapsto> ''1.2.3.4'', ''HTTP_USER_AGENT'' \<mapsto> ''Mozilla/5.0''],
      data = [''refresh'' \<mapsto> refresh],
      user = Some alice,
      auth = \<lparr>exp = 1600, user_id = 1, token = ''a-alice''\<rparr>\<rparr>"

section \<open>The views, path by path\<close>

lemmas act_defs = ret_def raise_exn_def lift_res_def bnd_def try_except_def emit_def on_ledger_def

lemmas sample_defs = sample_conf_def sample_deps_def sample_block_conf_def sample_world_def
  sample_ledger_def login_request_def login_request_no_agent_def alice_def locked_world_def
  world_after_failures_def logout_request_def login_request_no_address_def
  register_request_def register_request_no_agent_def

lemmas spec_ledger_defs = spec_ledger_ops_def check_is_blocked_def live_block_def
  on_failure_key_def remaining_attempts_def no_record_def

lemmas helper_defs = login_credentials_def register_credentials_def credentials_def
  validated_login_log_def login_log_dict_def authenticate_def first_by_username_def

lemma format_try_again:
  "format msg_try_again [] [(''times_try'', a), (''block_time'', b)] =
     Ret (''The username or password you entered is incorrect, please enter it again. You can also try '' @ a @
          '' times (The account will be temporarily locked for '' @ b @ '' minutes)'')"
  by (simp add: format_def msg_try_again_def)

lemma format_locked:
  "format msg_locked [b] [] =
     Ret (''The account has been locked (please contact admin to unlock it or try again after '' @ b @
          '' minutes)'')"
  by (simp add: format_def msg_locked_def)

lemma save_login_log_eq:
  "save_login_log env request ltype st w =
     (case validated_login_log env (META request) ltype st of
        Raise e \<Rightarrow> (Raise e, w)
      | Ret d \<Rightarrow> (Ret (), w\<lparr>trace := trace w @ [Ev_login_log_save (user request) d]\<rparr>))"
  by (simp add: save_login_log_def validated_login_log_def act_defs split: res.splits)

lemma login_failed_eq:
  "login_failed conf env lops request u ip w =
    (case validated_login_log env (META request) USERNAME False of
       Raise e \<Rightarrow> (Raise e, w)
     | Ret d \<Rightarrow>
         (Ret \<lparr>code = Some 9999,
               detail = Some
                 (if 0 < get_remainder_times lops u ip
                           (set_block_if_need lops ip (incr_failed_count lops u ip (ledger w)))
                  then ''The username or password you entered is incorrect, please enter it again. You can also try '' @
                       str_int (get_remainder_times lops u ip
                                  (set_block_if_need lops ip (incr_failed_count lops u ip (ledger w)))) @
                       '' times (The account will be temporarily locked for '' @
                       str_int (SECURITY_LOGIN_LIMIT_TIME conf) @ '' minutes)''
                  else ''The account has been locked (please contact admin to unlock it or try again after '' @
                       str_int (SECURITY_LOGIN_LIMIT_TIME conf) @ '' minutes)''),
               resp_data = None\<rparr>,
          w\<lparr>trace := trace w @
                 [Ev_login_log_save (first_by_username (users w) (data request ''username'')) d,
                  Ev_incr_failed_count u ip, Ev_set_block_if_need ip],
            ledger := set_block_if_need lops ip (incr_failed_count lops u ip (ledger w))\<rparr>))"
  by (simp add: login_failed_def save_login_log_eq act_defs format_try_again format_locked Let_def
      split: res.splits)

lemma login_succeeded_eq:
  "login_succeeded env lops request u ip (vd, su) w =
    (case validated_login_log env (META request) USERNAME True of
       Raise e \<Rightarrow> (Raise e, w)
     | Ret d \<Rightarrow>
         (Ret \<lparr>code = None, detail = None, resp_data = Some (vd ++ get_token_lifetime env su)\<rparr>,
          w\<lparr>trace := trace w @
                 [Ev_login_log_save (Some su) d, Ev_clean_failed_count u ip, Ev_clean_block_if_need ip],
            ledger := clean_block_if_need lops ip (clean_failed_count lops u ip (ledger w))\<rparr>))"
  by (simp add: login_succeeded_def save_login_log_eq act_defs Let_def split: res.splits)

lemma LoginView_post_disabled:
  "\<not> SECURITY_LOGIN_ACCESS_ENABLED conf \<Longrightarrow>
   LoginView_post conf env lops request w =
     (Ret \<lparr>code = Some 1001, detail = Some ''Login forbidden'', resp_data = None\<rparr>, w)"
  by (simp add: LoginView_post_def ret_def)

lemma LoginView_post_enabled:
  "SECURITY_LOGIN_ACCESS_ENABLED conf \<Longrightarrow>
   LoginView_post conf env lops request w =
     (case login_credentials conf env request of
        Raise e \<Rightarrow> (Raise e, w)
      | Ret (u, p) \<Rightarrow>
          (case check_is_block lops u (get_request_ip env (META request)) (ledger w) of
             (Raise e, l') \<Rightarrow>
               (Raise e, w\<lparr>trace := trace w @ [Ev_check_is_block u (get_request_ip env (META request))],
                           ledger := l'\<rparr>)
           | (Ret _, l') \<Rightarrow>
               (case is_valid env (users w) u p of
                  Raise e \<Rightarrow>
                    login_failed conf env lops request u (get_request_ip env (META request))
                      (w\<lparr>ledger := l',
                         trace := trace w @ [Ev_check_is_block u (get_request_ip env (META request)),
                                             Ev_is_valid u p]\<rparr>)
                | Ret v \<Rightarrow>
                    login_succeeded env lops request u (get_request_ip env (META request)) v
                      (w\<lparr>ledger := l',
                         trace := trace w @ [Ev_check_is_block u (get_request_ip env (META request)),
                                             Ev_is_valid u p]\<rparr>))))"
  by (simp add: LoginView_post_def act_defs Let_def split: res.splits prod.splits)

lemma spec_check_passes:
  assumes "login_credentials conf env request = Ret (u, p)"
      and "\<not> has_live_block conf env request l"
  shows "check_is_block (spec_ledger_ops bc) u (get_request_ip env (META request)) l = (Ret (), l)"
  using assms by (simp add: has_live_block_def spec_ledger_ops_def check_is_blocked_def)

lemma fold_max_ge: "(a::int) \<le> fold max xs a"
  by (induction xs arbitrary: a) (auto intro: order_trans [OF max.cobounded2])

lemma fold_max_mem: "x \<in> set xs \<Longrightarrow> (x::int) \<le> fold max xs a"
proof (induction xs arbitrary: a)
  case Nil
  then show ?case by simp
next
  case (Cons y ys)
  show ?case
  proof (cases "x = y")
    case True
    have "y \<le> max y a" by simp
    also have "\<dots> \<le> fold max ys (max y a)" by (rule fold_max_ge)
    finally show ?thesis using True by simp
  next
    case False
    with Cons show ?thesis by simp
  qed
qed

lemma pk_below_next_pk: "x \<in> set us \<Longrightarrow> pk x < next_pk us"
  using fold_max_mem [of "pk x" "map pk us" 0] by (simp add: next_pk_def)

lemma map_rows_unchanged:
  "map (\<lambda>row. if pk row = next_pk us then f row else row) us = us"
  by (rule map_idI) (use pk_below_next_pk in fastforce)

lemma authenticate_unknown:
  assumes "filter (\<lambda>x. username x = u) us = []"
  shows "authenticate us u p = None"
proof -
  from assms have "find (\<lambda>x. username x = u) us = None"
    by (simp add: find_None_iff filter_empty_conv)
  then show ?thesis by (simp add: authenticate_def)
qed

lemma register_new_user_eq:
  assumes "filter (\<lambda>x. username x = u) (users w) = []"
      and "created = \<lparr>pk = next_pk (users w), username = u, password = p, first_name = u,
                      nickname = u, is_active = True, last_login = None, dept = None,
                      dept_belong = None\<rparr>"
      and "dopt = (if channel \<noteq> [] then map_option dept_pk (auto_bind_dept (depts w) channel) else None)"
      and "names = (if dopt = None then [''last_login''] else [''last_login'', ''dept_belong'', ''dept''])"
      and "bound = created\<lparr>dept := dopt, dept_belong := dopt\<rparr>"
      and "nu = bound\<lparr>last_login := Some (clock w)\<rparr>"
      and "w' = w\<lparr>trace := trace w @ [Ev_create_user u p, Ev_for_user bound, Ev_user_save nu names],
                   users := users w @ [nu]\<rparr>"
  shows "bnd (user_to_register channel u p) (issue_and_log env request) w =
     (case validated_login_log env (META request) USERNAME True of
        Raise e \<Rightarrow> (Raise e, w')
      | Ret d \<Rightarrow>
          (Ret \<lparr>code = None, detail = None,
                resp_data = Some ([''refresh'' \<mapsto> JStr (fst (for_user env bound)),
                                   ''access'' \<mapsto> JStr (snd (for_user env bound))]
                                  ++ get_token_lifetime env nu)\<rparr>,
           w'\<lparr>trace := trace w' @ [Ev_login_log_save (Some nu) d]\<rparr>))"
  using authenticate_unknown [OF assms(1), of p] assms(2-)
  by (auto simp: user_to_register_def issue_and_log_def create_user_def user_save_def write_fields_def
      save_login_log_eq act_defs Let_def map_rows_unchanged split: res.splits option.splits)

lemma RegisterView_post_disabled:
  "\<not> SECURITY_REGISTER_ACCESS_ENABLED conf \<Longrightarrow>
   RegisterView_post conf env request w =
     (Ret \<lparr>code = Some 1001, detail = Some ''Registration forbidden'', resp_data = None\<rparr>, w)"
  by (simp add: RegisterView_post_def ret_def)

lemma RegisterView_post_enabled:
  "SECURITY_REGISTER_ACCESS_ENABLED conf \<Longrightarrow>
   RegisterView_post conf env request w =
     (case register_credentials conf env request of
        Raise e \<Rightarrow> (Raise e, w)
      | Ret (u, p) \<Rightarrow>
          if \<not> check_password_rules env p
          then (Ret \<lparr>code = Some 1001, detail = Some ''Password does not match security rules'',
                     resp_data = None\<rparr>, w)
          else if filter (\<lambda>x. username x = u) (users w) \<noteq> []
          then (Ret \<lparr>code = Some 1002,
                     detail = Some ''The username already exists, please try another one'',
                     resp_data = None\<rparr>, w)
          else bnd (user_to_register (case data request ''channel'' of None \<Rightarrow> ''default'' | Some c \<Rightarrow> c) u p)
                 (issue_and_log env request) w)"
  by (simp add: RegisterView_post_def act_defs Let_def split: res.splits prod.splits)

lemma validated_login_log_status:
  "validated_login_log env meta ltype st = Ret d \<Longrightarrow> status d = st"
  by (auto simp: validated_login_log_def login_log_dict_def split: option.splits res.splits)

text \<open>
  The response of a failed login, for every behaviour of the ledger helpers: \<open>r\<close> is what
  \<open>get_remainder_times\<close> returns after the two ledger calls.
\<close>

lemma login_failed_response:
  assumes "SECURITY_LOGIN_ACCESS_ENABLED conf"
      and "login_credentials conf env request = Ret (u, p)"
      and "check_is_block lops u (get_request_ip env (META request)) (ledger w) = (Ret (), l1)"
      and "is_valid env (users w) u p = Raise e"
      and "validated_login_log env (META request) USERNAME False = Ret d"
      and "r = get_remainder_times lops u (get_request_ip env (META request))
                 (set_block_if_need lops (get_request_ip env (META request))
                    (incr_failed_count lops u (get_request_ip env (META request)) l1))"
  shows "outcome (LoginView_post conf env lops request) w =
           Ret \<lparr>code = Some 9999,
                detail = Some
                  (if 0 < r
                   then ''The username or password you entered is incorrect, please enter it again. You can also try '' @
                        str_int r @ '' times (The account will be temporarily locked for '' @
                        str_int (SECURITY_LOGIN_LIMIT_TIME conf) @ '' minutes)''
                   else ''The account has been locked (please contact admin to unlock it or try again after '' @
                        str_int (SECURITY_LOGIN_LIMIT_TIME conf) @ '' minutes)''),
                resp_data = None\<rparr>"
    and "ledger (after (LoginView_post conf env lops request) w) =
           set_block_if_need lops (get_request_ip env (META request))
             (incr_failed_count lops u (get_request_ip env (META request)) l1)"
  using assms by (simp_all add: outcome_def after_def LoginView_post_enabled login_failed_eq)

section \<open>The claims\<close>

text \<open>
  C1. For every login request in which the submitted username (as the decoder returns
  it) or the origin IP has a live block, credential verification is never attempted and
  the ledger is left as it was; the request that reaches the block check of line 135
  (login enabled, gate and decoder passed) is rejected there with the account-locked
  error, whatever the password, the correct one included. The block check is the
  specification's \<open>check_is_blocked\<close>.
\<close>

theorem C1_live_block_rejects_before_verification:
  assumes "has_live_block conf env request (ledger w)"
  shows "\<not> list_ex is_verification (calls (LoginView_post conf env (spec_ledger_ops bc) request) w)
       \<and> ledger (after (LoginView_post conf env (spec_ledger_ops bc) request) w) = ledger w
       \<and> (SECURITY_LOGIN_ACCESS_ENABLED conf \<and> returns (login_credentials conf env request) \<longrightarrow>
            outcome (LoginView_post conf env (spec_ledger_ops bc) request) w = Raise AccountLockedError)"
proof (cases "SECURITY_LOGIN_ACCESS_ENABLED conf")
  case False
  then show ?thesis
    by (simp add: calls_def after_def outcome_def LoginView_post_disabled)
next
  case True
  show ?thesis
  proof (cases "login_credentials conf env request")
    case (Raise e)
    with True show ?thesis
      by (simp add: calls_def after_def outcome_def LoginView_post_enabled)
  next
    case (Ret up)
    obtain u p where up: "up = (u, p)" by (cases up)
    from assms Ret up
    have "fst (check_is_blocked u (get_request_ip env (META request)) (ledger w)) = Raise AccountLockedError"
      and "snd (check_is_blocked u (get_request_ip env (META request)) (ledger w)) = ledger w"
      by (auto simp: has_live_block_def check_is_blocked_def)
    then have "check_is_blocked u (get_request_ip env (META request)) (ledger w) =
                 (Raise AccountLockedError, ledger w)"
      by (simp add: prod_eq_iff)
    with True Ret up show ?thesis
      by (simp add: calls_def after_def outcome_def LoginView_post_enabled spec_ledger_ops_def)
  qed
qed

text \<open>Alice, locked until 2800, submits her correct password at time 1000.\<close>

theorem C1_live_block_rejects_before_verification_witness:
  "has_live_block sample_conf sample_deps (login_request ''correct horse'') (ledger locked_world)
   \<and> returns (is_valid sample_deps (users locked_world) ''alice'' ''correct horse'')
   \<and> outcome (LoginView_post sample_conf sample_deps (spec_ledger_ops sample_block_conf)
                (login_request ''correct horse'')) locked_world = Raise AccountLockedError
   \<and> \<not> list_ex is_verification
         (calls (LoginView_post sample_conf sample_deps (spec_ledger_ops sample_block_conf)
                   (login_request ''correct horse'')) locked_world)"
proof -
  have h: "has_live_block sample_conf sample_deps (login_request ''correct horse'') (ledger locked_world)"
    by (simp add: has_live_block_def helper_defs spec_ledger_defs sample_defs)
  have r: "returns (login_credentials sample_conf sample_deps (login_request ''correct horse''))"
    by (simp add: helper_defs sample_defs)
  have v: "returns (is_valid sample_deps (users locked_world) ''alice'' ''correct horse'')"
    by (simp add: helper_defs sample_defs)
  from C1_live_block_rejects_before_verification [OF h, of sample_block_conf] r v h show ?thesis
    by (simp add: sample_conf_def)
qed

text \<open>
  C2 (as found in the code). For every login request that passes credential verification
  and whose audit record is written (the request carries a user agent and the serializer
  accepts the record), the view calls \<open>clean_failed_count\<close> and \<open>clean_block_if_need\<close>,
  so with the specification's ledger both the username's and the IP's record are
  cleared, whatever the prior failure counts, and the token data is returned. When the
  audit write raises, the two resets after it are not reached.
\<close>

theorem C2_success_clears_both_counters:
  assumes "SECURITY_LOGIN_ACCESS_ENABLED conf"
      and "login_credentials conf env request = Ret (u, p)"
      and "\<not> has_live_block conf env request (ledger w)"
      and "is_valid env (users w) u p = Ret (vd, su)"
      and "validated_login_log env (META request) USERNAME True = Ret d"
  shows "by_username (ledger (after (LoginView_post conf env (spec_ledger_ops bc) request) w)) u = no_record
       \<and> by_ip (ledger (after (LoginView_post conf env (spec_ledger_ops bc) request) w))
            (get_request_ip env (META request)) = no_record
       \<and> calls (LoginView_post conf env (spec_ledger_ops bc) request) w =
           [Ev_check_is_block u (get_request_ip env (META request)), Ev_is_valid u p,
            Ev_login_log_save (Some su) d,
            Ev_clean_failed_count u (get_request_ip env (META request)),
            Ev_clean_block_if_need (get_request_ip env (META request))]
       \<and> outcome (LoginView_post conf env (spec_ledger_ops bc) request) w =
           Ret \<lparr>code = None, detail = None, resp_data = Some (vd ++ get_token_lifetime env su)\<rparr>"
proof -
  note chk = spec_check_passes [OF assms(2,3), of bc]
  have "by_username (clean_block_if_need (spec_ledger_ops bc) ip
          (clean_failed_count (spec_ledger_ops bc) u ip l)) u = no_record" for ip l
    by (simp add: spec_ledger_ops_def)
  moreover have "by_ip (clean_block_if_need (spec_ledger_ops bc) ip
          (clean_failed_count (spec_ledger_ops bc) u ip l)) ip = no_record" for ip l
    by (simp add: spec_ledger_ops_def)
  ultimately show ?thesis
    using assms(1,2,4,5) chk
    by (simp add: calls_def after_def outcome_def LoginView_post_enabled login_succeeded_eq)
qed

text \<open>Alice logs in after four failures of her own and nineteen from her address.\<close>

theorem C2_success_clears_both_counters_witness:
  "failed_count (by_username (ledger (world_after_failures 4 19)) ''alice'') = 4
   \<and> failed_count (by_ip (ledger (world_after_failures 4 19)) ''1.2.3.4'') = 19
   \<and> by_username (ledger (after (LoginView_post sample_conf sample_deps
         (spec_ledger_ops sample_block_conf) (login_request ''correct horse''))
         (world_after_failures 4 19))) ''alice'' = no_record
   \<and> by_ip (ledger (after (LoginView_post sample_conf sample_deps
         (spec_ledger_ops sample_block_conf) (login_request ''correct horse''))
         (world_after_failures 4 19))) ''1.2.3.4'' = no_record"
proof -
  have 1: "SECURITY_LOGIN_ACCESS_ENABLED sample_conf"
    by (simp add: sample_conf_def)
  have 2: "login_credentials sample_conf sample_deps (login_request ''correct horse'') =
             Ret (''alice'', ''correct horse'')"
    by (simp add: helper_defs sample_defs)
  have 3: "\<not> has_live_block sample_conf sample_deps (login_request ''correct horse'')
               (ledger (world_after_failures 4 19))"
    by (simp add: has_live_block_def helper_defs spec_ledger_defs sample_defs)
  have 4: "is_valid sample_deps (users (world_after_failures 4 19)) ''alice'' ''correct horse'' =
             Ret ([''refresh'' \<mapsto> JStr ''r-alice'', ''access'' \<mapsto> JStr ''a-alice''], alice)"
    by (simp add: helper_defs sample_defs)
  have 5: "validated_login_log sample_deps (META (login_request ''correct horse'')) USERNAME True =
             Ret \<lparr>ipaddress = ''1.2.3.4'', browser = ''Firefox'', system = ''Linux'', status = True,
                  agent = ''Mozilla/5.0'', login_type = USERNAME\<rparr>"
    by (simp add: helper_defs sample_defs)
  have ip: "get_request_ip sample_deps (META (login_request ''correct horse'')) = ''1.2.3.4''"
    by (simp add: sample_defs)
  from C2_success_clears_both_counters [OF 1 2 3 4 5, of sample_block_conf] show ?thesis
    by (simp add: ip world_after_failures_def)
qed

text \<open>
  The claim as stated fails for a request without a \<^verbatim>\<open>User-Agent\<close> header: the password
  is verified, the audit write raises \<^verbatim>\<open>KeyError\<close>, and both counters stay.
\<close>

theorem C2_no_user_agent_counterexample:
  "returns (is_valid sample_deps (users (world_after_failures 4 19)) ''alice'' ''correct horse'')
   \<and> list_ex is_verification (calls (LoginView_post sample_conf sample_deps
         (spec_ledger_ops sample_block_conf) (login_request_no_agent ''correct horse''))
         (world_after_failures 4 19))
   \<and> outcome (LoginView_post sample_conf sample_deps (spec_ledger_ops sample_block_conf)
        (login_request_no_agent ''correct horse'')) (world_after_failures 4 19)
       = Raise (KeyError ''HTTP_USER_AGENT'')
   \<and> failed_count (by_username (ledger (after (LoginView_post sample_conf sample_deps
         (spec_ledger_ops sample_block_conf) (login_request_no_agent ''correct horse''))
         (world_after_failures 4 19))) ''alice'') = 4
   \<and> failed_count (by_ip (ledger (after (LoginView_post sample_conf sample_deps
         (spec_ledger_ops sample_block_conf) (login_request_no_agent ''correct horse''))
         (world_after_failures 4 19))) ''1.2.3.4'') = 19"
  by (simp add: calls_def outcome_def after_def LoginView_post_enabled login_succeeded_eq
      helper_defs spec_ledger_defs sample_defs)

text \<open>
  C3 (as found in the code). On every failed credential verification whose audit record
  is written, the view calls \<open>incr_failed_count\<close> for the username and
  \<open>set_block_if_need\<close> for the IP, so with the specification's ledger both failed counts
  grow by one, and a count that has reached its threshold sets \<open>blocked_until\<close> to now
  plus the key's block duration (in minutes), while a count below it leaves
  \<open>blocked_until\<close> as it was. When the audit write raises, the two ledger calls after it
  are not reached.
\<close>

theorem C3_failure_increments_both_counters:
  assumes "SECURITY_LOGIN_ACCESS_ENABLED conf"
      and "login_credentials conf env request = Ret (u, p)"
      and "\<not> has_live_block conf env request (ledger w)"
      and "is_valid env (users w) u p = Raise e"
      and "validated_login_log env (META request) USERNAME False = Ret d"
      and "l' = ledger (after (LoginView_post conf env (spec_ledger_ops bc) request) w)"
      and "ip = get_request_ip env (META request)"
  shows "failed_count (by_username l' u) = failed_count (by_username (ledger w) u) + 1
       \<and> failed_count (by_ip l' ip) = failed_count (by_ip (ledger w) ip) + 1
       \<and> blocked_until (by_username l' u) =
           (if username_threshold bc \<le> failed_count (by_username l' u)
            then Some (now (ledger w) + 60 * real_of_int (username_block_minutes bc))
            else blocked_until (by_username (ledger w) u))
       \<and> blocked_until (by_ip l' ip) =
           (if ip_threshold bc \<le> failed_count (by_ip l' ip)
            then Some (now (ledger w) + 60 * real_of_int (ip_block_minutes bc))
            else blocked_until (by_ip (ledger w) ip))
       \<and> calls (LoginView_post conf env (spec_ledger_ops bc) request) w =
           [Ev_check_is_block u ip, Ev_is_valid u p,
            Ev_login_log_save (first_by_username (users w) (data request ''username'')) d,
            Ev_incr_failed_count u ip, Ev_set_block_if_need ip]"
proof -
  note chk = spec_check_passes [OF assms(2,3), of bc]
  have l': "l' = set_block_if_need (spec_ledger_ops bc) ip
                   (incr_failed_count (spec_ledger_ops bc) u ip (ledger w))"
    using assms(1,2,4,5,6,7) chk
    by (simp add: after_def LoginView_post_enabled login_failed_eq)
  have c: "calls (LoginView_post conf env (spec_ledger_ops bc) request) w =
           [Ev_check_is_block u ip, Ev_is_valid u p,
            Ev_login_log_save (first_by_username (users w) (data request ''username'')) d,
            Ev_incr_failed_count u ip, Ev_set_block_if_need ip]"
    using assms(1,2,4,5,7) chk
    by (simp add: calls_def LoginView_post_enabled login_failed_eq)
  show ?thesis
    unfolding c by (simp add: l' spec_ledger_ops_def on_failure_key_def Let_def)
qed

text \<open>
  Alice's fifth wrong password (threshold 5, 30 minutes) at time 1000, the fourth failure
  from her address (threshold 20).
\<close>

theorem C3_failure_increments_both_counters_witness:
  "failed_count (by_username (ledger (after (LoginView_post sample_conf sample_deps
       (spec_ledger_ops sample_block_conf) (login_request ''wrong'')) (world_after_failures 4 3)))
       ''alice'') = 5
   \<and> blocked_until (by_username (ledger (after (LoginView_post sample_conf sample_deps
       (spec_ledger_ops sample_block_conf) (login_request ''wrong'')) (world_after_failures 4 3)))
       ''alice'') = Some 2800
   \<and> failed_count (by_ip (ledger (after (LoginView_post sample_conf sample_deps
       (spec_ledger_ops sample_block_conf) (login_request ''wrong'')) (world_after_failures 4 3)))
       ''1.2.3.4'') = 4
   \<and> blocked_until (by_ip (ledger (after (LoginView_post sample_conf sample_deps
       (spec_ledger_ops sample_block_conf) (login_request ''wrong'')) (world_after_failures 4 3)))
       ''1.2.3.4'') = None"
proof -
  have 1: "SECURITY_LOGIN_ACCESS_ENABLED sample_conf"
    by (simp add: sample_conf_def)
  have 2: "login_credentials sample_conf sample_deps (login_request ''wrong'') = Ret (''alice'', ''wrong'')"
    by (simp add: helper_defs sample_defs)
  have 3: "\<not> has_live_block sample_conf sample_deps (login_request ''wrong'')
               (ledger (world_after_failures 4 3))"
    by (simp add: has_live_block_def helper_defs spec_ledger_defs sample_defs)
  have 4: "is_valid sample_deps (users (world_after_failures 4 3)) ''alice'' ''wrong'' =
             Raise AuthenticationFailed"
    by (simp add: helper_defs sample_defs)
  have 5: "validated_login_log sample_deps (META (login_request ''wrong'')) USERNAME False =
             Ret \<lparr>ipaddress = ''1.2.3.4'', browser = ''Firefox'', system = ''Linux'', status = False,
                  agent = ''Mozilla/5.0'', login_type = USERNAME\<rparr>"
    by (simp add: helper_defs sample_defs)
  have ip: "''1.2.3.4'' = get_request_ip sample_deps (META (login_request ''wrong''))"
    by (simp add: sample_defs)
  from C3_failure_increments_both_counters [OF 1 2 3 4 5 refl ip, of sample_block_conf]
  show ?thesis
    by (simp add: world_after_failures_def sample_block_conf_def sample_world_def sample_ledger_def)
qed

text \<open>
  The claim as stated fails for a request without a \<^verbatim>\<open>User-Agent\<close> header: the
  verification fails, the audit write raises \<^verbatim>\<open>KeyError\<close>, and neither count grows.
\<close>

theorem C3_no_user_agent_counterexample:
  "is_valid sample_deps (users (world_after_failures 2 2)) ''alice'' ''wrong'' = Raise AuthenticationFailed
   \<and> list_ex is_verification (calls (LoginView_post sample_conf sample_deps
         (spec_ledger_ops sample_block_conf) (login_request_no_agent ''wrong''))
         (world_after_failures 2 2))
   \<and> outcome (LoginView_post sample_conf sample_deps (spec_ledger_ops sample_block_conf)
        (login_request_no_agent ''wrong'')) (world_after_failures 2 2)
       = Raise (KeyError ''HTTP_USER_AGENT'')
   \<and> failed_count (by_username (ledger (after (LoginView_post sample_conf sample_deps
         (spec_ledger_ops sample_block_conf) (login_request_no_agent ''wrong''))
         (world_after_failures 2 2))) ''alice'') = 2
   \<and> failed_count (by_ip (ledger (after (LoginView_post sample_conf sample_deps
         (spec_ledger_ops sample_block_conf) (login_request_no_agent ''wrong''))
         (world_after_failures 2 2))) ''1.2.3.4'') = 2"
  by (simp add: calls_def outcome_def after_def LoginView_post_enabled login_failed_eq
      helper_defs spec_ledger_defs sample_defs)

text \<open>
  C4 (as found in the code). Every login request that fails credential verification and
  whose audit record is written returns application code 9999. With the specification's
  ledger the remaining attempts are \<open>r = max(0, threshold - failed_count)\<close>, the count
  being the one after this failure: when \<open>r\<close> is positive the detail is the try-again
  message embedding \<open>r\<close> and the configured block time, and when \<open>r\<close> is zero it is the
  account-locked message with the configured block time in minutes. When the audit write
  raises, no response is returned.
\<close>

theorem C4_failed_login_response:
  assumes "SECURITY_LOGIN_ACCESS_ENABLED conf"
      and "login_credentials conf env request = Ret (u, p)"
      and "\<not> has_live_block conf env request (ledger w)"
      and "is_valid env (users w) u p = Raise e"
      and "validated_login_log env (META request) USERNAME False = Ret d"
      and "r = max 0 (username_threshold bc -
                 failed_count (by_username
                   (ledger (after (LoginView_post conf env (spec_ledger_ops bc) request) w)) u))"
  shows "outcome (LoginView_post conf env (spec_ledger_ops bc) request) w =
           Ret \<lparr>code = Some 9999,
                detail = Some
                  (if 0 < r
                   then ''The username or password you entered is incorrect, please enter it again. You can also try '' @
                        str_int r @ '' times (The account will be temporarily locked for '' @
                        str_int (SECURITY_LOGIN_LIMIT_TIME conf) @ '' minutes)''
                   else ''The account has been locked (please contact admin to unlock it or try again after '' @
                        str_int (SECURITY_LOGIN_LIMIT_TIME conf) @ '' minutes)''),
                resp_data = None\<rparr>
       \<and> 0 \<le> r
       \<and> r = get_remainder_times (spec_ledger_ops bc) u (get_request_ip env (META request))
               (ledger (after (LoginView_post conf env (spec_ledger_ops bc) request) w))
       \<and> failed_count (by_username
            (ledger (after (LoginView_post conf env (spec_ledger_ops bc) request) w)) u) =
           failed_count (by_username (ledger w) u) + 1"
proof -
  let ?ip = "get_request_ip env (META request)"
  let ?l' = "set_block_if_need (spec_ledger_ops bc) ?ip
               (incr_failed_count (spec_ledger_ops bc) u ?ip (ledger w))"
  note chk = spec_check_passes [OF assms(2,3), of bc]
  have aft: "ledger (after (LoginView_post conf env (spec_ledger_ops bc) request) w) = ?l'"
    by (rule login_failed_response(2) [OF assms(1,2) chk assms(4,5) refl])
  have r: "r = get_remainder_times (spec_ledger_ops bc) u ?ip ?l'"
    using assms(6) unfolding aft by (simp add: spec_ledger_ops_def remaining_attempts_def)
  have cnt: "failed_count (by_username ?l' u) = failed_count (by_username (ledger w) u) + 1"
    by (simp add: spec_ledger_ops_def on_failure_key_def Let_def)
  have nonneg: "0 \<le> r"
    using assms(6) by simp
  from login_failed_response(1) [OF assms(1,2) chk assms(4,5) r] nonneg r cnt
  show ?thesis
    unfolding aft by simp
qed

text \<open>
  Threshold 5, block time 30: alice's third wrong password leaves two attempts, and the
  detail embeds 2 and 30; her fifth leaves none, and the detail is the locked message
  with 30.
\<close>

theorem C4_failed_login_response_witness:
  "max 0 (username_threshold sample_block_conf -
      failed_count (by_username (ledger (after (LoginView_post sample_conf sample_deps
        (spec_ledger_ops sample_block_conf) (login_request ''wrong'')) (world_after_failures 2 0)))
        ''alice'')) = 2
   \<and> outcome (LoginView_post sample_conf sample_deps (spec_ledger_ops sample_block_conf)
                (login_request ''wrong'')) (world_after_failures 2 0) =
       Ret \<lparr>code = Some 9999,
            detail = Some (''The username or password you entered is incorrect, please enter it again. '' @
                           ''You can also try 2 times (The account will be temporarily locked for 30 minutes)''),
            resp_data = None\<rparr>
   \<and> max 0 (username_threshold sample_block_conf -
      failed_count (by_username (ledger (after (LoginView_post sample_conf sample_deps
        (spec_ledger_ops sample_block_conf) (login_request ''wrong'')) (world_after_failures 4 0)))
        ''alice'')) = 0
   \<and> outcome (LoginView_post sample_conf sample_deps (spec_ledger_ops sample_block_conf)
                (login_request ''wrong'')) (world_after_failures 4 0) =
       Ret \<lparr>code = Some 9999,
            detail = Some (''The account has been locked (please contact admin to unlock it or try'' @
                           '' again after 30 minutes)''),
            resp_data = None\<rparr>"
proof -
  have 1: "SECURITY_LOGIN_ACCESS_ENABLED sample_conf"
    by (simp add: sample_conf_def)
  have 2: "login_credentials sample_conf sample_deps (login_request ''wrong'') = Ret (''alice'', ''wrong'')"
    by (simp add: helper_defs sample_defs)
  have 3: "\<not> has_live_block sample_conf sample_deps (login_request ''wrong'')
               (ledger (world_after_failures n 0))" for n
    by (simp add: has_live_block_def helper_defs spec_ledger_defs sample_defs)
  have 4: "is_valid sample_deps (users (world_after_failures n 0)) ''alice'' ''wrong'' =
             Raise AuthenticationFailed" for n
    by (simp add: helper_defs sample_defs)
  have 5: "validated_login_log sample_deps (META (login_request ''wrong'')) USERNAME False =
             Ret \<lparr>ipaddress = ''1.2.3.4'', browser = ''Firefox'', system = ''Linux'', status = False,
                  agent = ''Mozilla/5.0'', login_type = USERNAME\<rparr>"
    by (simp add: helper_defs sample_defs)
  have before: "failed_count (by_username (ledger (world_after_failures n 0)) ''alice'') = n" for n
    by (simp add: sample_defs)
  note a = C4_failed_login_response [OF 1 2 3 [of 2] 4 [of 2] 5 refl, where bc = sample_block_conf]
  note b = C4_failed_login_response [OF 1 2 3 [of 4] 4 [of 4] 5 refl, where bc = sample_block_conf]
  have ra: "max 0 (username_threshold sample_block_conf -
      failed_count (by_username (ledger (after (LoginView_post sample_conf sample_deps
        (spec_ledger_ops sample_block_conf) (login_request ''wrong'')) (world_after_failures 2 0)))
        ''alice'')) = 2"
    using a by (simp add: before sample_block_conf_def)
  have rb: "max 0 (username_threshold sample_block_conf -
      failed_count (by_username (ledger (after (LoginView_post sample_conf sample_deps
        (spec_ledger_ops sample_block_conf) (login_request ''wrong'')) (world_after_failures 4 0)))
        ''alice'')) = 0"
    using b by (simp add: before sample_block_conf_def)
  from a b show ?thesis
    unfolding ra rb by (simp add: sample_conf_def str_int_def str_nat.simps)
qed

text \<open>
  The claim as stated fails for a request without a \<^verbatim>\<open>User-Agent\<close> header: the
  verification fails and the view raises \<^verbatim>\<open>KeyError\<close> instead of returning code 9999.
\<close>

theorem C4_no_user_agent_counterexample:
  "is_valid sample_deps (users sample_world) ''alice'' ''wrong'' = Raise AuthenticationFailed
   \<and> list_ex is_verification (calls (LoginView_post sample_conf sample_deps
         (spec_ledger_ops sample_block_conf) (login_request_no_agent ''wrong'')) sample_world)
   \<and> \<not> returns (outcome (LoginView_post sample_conf sample_deps (spec_ledger_ops sample_block_conf)
                   (login_request_no_agent ''wrong'')) sample_world)"
  by (simp add: calls_def outcome_def LoginView_post_enabled login_failed_eq
      helper_defs spec_ledger_defs sample_defs)

text \<open>
  C5. For every logout request, whatever the refresh token of the body is and whatever
  constructing it or blacklisting it raises, \<^verbatim>\<open>LogoutView.post\<close> returns the generic
  success response \<^verbatim>\<open>ApiResponse()\<close>.
\<close>

theorem C5_logout_always_succeeds:
  "outcome (LogoutView_post env request) w = Ret \<lparr>code = None, detail = None, resp_data = None\<rparr>"
  by (simp add: outcome_def LogoutView_post_def revoke_refresh_def set_storage_cache_def act_defs
      Let_def split: option.splits res.splits)

text \<open>A logout with a refresh token the issuer refuses.\<close>

theorem C5_logout_always_succeeds_witness:
  "RefreshToken_init sample_deps ''garbage'' = Raise (TokenError ''Token is invalid or expired'')
   \<and> calls (LogoutView_post sample_deps (logout_request ''garbage'')) sample_world =
       [Ev_set_storage_cache 1 ''md5-a-alice'' 1 600, Ev_RefreshToken ''garbage'']
   \<and> outcome (LogoutView_post sample_deps (logout_request ''garbage'')) sample_world =
       Ret \<lparr>code = None, detail = None, resp_data = None\<rparr>"
  using C5_logout_always_succeeds [of sample_deps "logout_request ''garbage''" sample_world]
  by (simp add: calls_def LogoutView_post_def revoke_refresh_def set_storage_cache_def act_defs
      Let_def sample_defs)

text \<open>
  C6. Every logout request makes exactly one insertion into the access-token blacklist:
  the key is the pair of the payload's \<open>user_id\<close> and the MD5 hex digest of the access
  token, the value is 1 and the timeout is the token's \<open>exp\<close> claim minus the current
  time; so the entry of the specification's cache expires at \<open>exp\<close>, the token's natural
  expiry, and no other entry changes.
\<close>

theorem C6_logout_blacklists_access_token:
  "filter is_blacklist_insert (calls (LogoutView_post env request) w) =
     [Ev_set_storage_cache (user_id (auth request)) (md5_hexdigest env (token (auth request))) 1
        (real_of_int (exp (auth request)) - clock w)]
   \<and> black_access (after (LogoutView_post env request) w) =
       (black_access w)((user_id (auth request), md5_hexdigest env (token (auth request))) \<mapsto>
          (1, real_of_int (exp (auth request))))"
  by (simp add: calls_def after_def LogoutView_post_def revoke_refresh_def set_storage_cache_def
      act_defs Let_def split: option.splits res.splits)

text \<open>Alice logs out at time 1000 with a token that expires at 1600.\<close>

theorem C6_logout_blacklists_access_token_witness:
  "filter is_blacklist_insert (calls (LogoutView_post sample_deps (logout_request ''r-alice'')) sample_world) =
     [Ev_set_storage_cache 1 ''md5-a-alice'' 1 600]
   \<and> black_access (after (LogoutView_post sample_deps (logout_request ''r-alice'')) sample_world)
        (1, ''md5-a-alice'') = Some (1, 1600)"
  using C6_logout_blacklists_access_token [of sample_deps "logout_request ''r-alice''" sample_world]
  by (simp add: sample_defs)

text \<open>
  C7 (as found in the code). In every login attempt the Login Audit Log record is written
  before the Block Ledger is updated: in the calls of \<^verbatim>\<open>LoginView.post\<close>, whatever the
  collaborators do, every ledger update (the failure-counter increment, the IP block
  update, the two resets) comes after a write of the audit record. The order the claim
  states, ledger first, is the reverse of lines 145 to 147 and 164 to 167.
\<close>

theorem C7_audit_write_precedes_ledger_update:
  "each_after is_audit_write is_ledger_update False
     (calls (LoginView_post conf env lops request) w)"
  by (cases "SECURITY_LOGIN_ACCESS_ENABLED conf")
     (simp_all add: calls_def LoginView_post_disabled LoginView_post_enabled login_failed_eq
       login_succeeded_eq split: res.splits prod.splits)

theorem C7_audit_write_precedes_ledger_update_witness:
  "each_after is_audit_write is_ledger_update False
     (calls (LoginView_post sample_conf sample_deps (spec_ledger_ops sample_block_conf)
               (login_request ''correct horse'')) sample_world)
   \<and> calls (LoginView_post sample_conf sample_deps (spec_ledger_ops sample_block_conf)
               (login_request ''correct horse'')) sample_world =
     [Ev_check_is_block ''alice'' ''1.2.3.4'', Ev_is_valid ''alice'' ''correct horse'',
      Ev_login_log_save (Some alice)
        \<lparr>ipaddress = ''1.2.3.4'', browser = ''Firefox'', system = ''Linux'', status = True,
         agent = ''Mozilla/5.0'', login_type = USERNAME\<rparr>,
      Ev_clean_failed_count ''alice'' ''1.2.3.4'', Ev_clean_block_if_need ''1.2.3.4'']"
  using C7_audit_write_precedes_ledger_update
    [of sample_conf sample_deps "spec_ledger_ops sample_block_conf"
        "login_request ''correct horse''" sample_world]
  by (simp add: calls_def LoginView_post_enabled login_succeeded_eq helper_defs spec_ledger_defs
      sample_defs)

text \<open>
  The claim as stated fails: a login of alice with a wrong password writes the audit
  record first and updates the ledger after it, so not every audit write comes after a
  ledger update.
\<close>

theorem C7_ledger_before_audit_counterexample:
  "calls (LoginView_post sample_conf sample_deps (spec_ledger_ops sample_block_conf)
            (login_request ''wrong'')) sample_world =
     [Ev_check_is_block ''alice'' ''1.2.3.4'', Ev_is_valid ''alice'' ''wrong'',
      Ev_login_log_save (Some alice)
        \<lparr>ipaddress = ''1.2.3.4'', browser = ''Firefox'', system = ''Linux'', status = False,
         agent = ''Mozilla/5.0'', login_type = USERNAME\<rparr>,
      Ev_incr_failed_count ''alice'' ''1.2.3.4'', Ev_set_block_if_need ''1.2.3.4'']
   \<and> \<not> each_after is_ledger_update is_audit_write False
         (calls (LoginView_post sample_conf sample_deps (spec_ledger_ops sample_block_conf)
                   (login_request ''wrong'')) sample_world)"
  by (simp add: calls_def LoginView_post_enabled login_failed_eq helper_defs spec_ledger_defs
      sample_defs)




text \<open>
  C9 (as found in the code). Every registration request that passes the feature,
  challenge, password-rule and duplicate-username checks, and whose audit record is
  accepted (the request carries a user agent and the serializer accepts the record),
  creates the new user, issues the access and refresh tokens with the lifetime metadata,
  saves the user with \<open>last_login\<close> set to the current time, and writes one login-audit
  record with status success, in this order within the request. When the audit write
  raises, the user has been created and saved and the request fails.
\<close>

theorem C9_registration_creates_user_and_logs_in:
  assumes "SECURITY_REGISTER_ACCESS_ENABLED conf"
      and "register_credentials conf env request = Ret (u, p)"
      and "check_password_rules env p"
      and "filter (\<lambda>x. username x = u) (users w) = []"
      and "validated_login_log env (META request) USERNAME True = Ret d"
  shows "\<exists>nu names.
           users (after (RegisterView_post conf env request) w) = users w @ [nu]
         \<and> username nu = u \<and> password nu = p \<and> last_login nu = Some (clock w)
         \<and> calls (RegisterView_post conf env request) w =
             [Ev_create_user u p, Ev_for_user (nu\<lparr>last_login := None\<rparr>),
              Ev_user_save nu names, Ev_login_log_save (Some nu) d]
         \<and> ''last_login'' \<in> set names
         \<and> status d
         \<and> outcome (RegisterView_post conf env request) w =
             Ret \<lparr>code = None, detail = None,
                  resp_data = Some ([''refresh'' \<mapsto> JStr (fst (for_user env (nu\<lparr>last_login := None\<rparr>))),
                                     ''access'' \<mapsto> JStr (snd (for_user env (nu\<lparr>last_login := None\<rparr>)))]
                                    ++ get_token_lifetime env nu)\<rparr>"
proof -
  define channel where "channel = (case data request ''channel'' of None \<Rightarrow> ''default'' | Some c \<Rightarrow> c)"
  define created where "created = \<lparr>pk = next_pk (users w), username = u, password = p,
    first_name = u, nickname = u, is_active = True, last_login = None, dept = None,
    dept_belong = None\<rparr>"
  define dopt where "dopt = (if channel \<noteq> [] then map_option dept_pk (auto_bind_dept (depts w) channel) else None)"
  define names where "names = (if dopt = None then [''last_login''] else [''last_login'', ''dept_belong'', ''dept''])"
  define bound where "bound = created\<lparr>dept := dopt, dept_belong := dopt\<rparr>"
  define nu where "nu = bound\<lparr>last_login := Some (clock w)\<rparr>"
  have run: "RegisterView_post conf env request w' =
      (Ret \<lparr>code = None, detail = None,
            resp_data = Some ([''refresh'' \<mapsto> JStr (fst (for_user env bound)),
                               ''access'' \<mapsto> JStr (snd (for_user env bound))]
                              ++ get_token_lifetime env nu)\<rparr>,
       w'\<lparr>trace := trace w' @ [Ev_create_user u p, Ev_for_user bound, Ev_user_save nu names,
                               Ev_login_log_save (Some nu) d],
          users := users w @ [nu]\<rparr>)"
    if "users w' = users w" "depts w' = depts w" "clock w' = clock w" for w'
  proof -
    have none: "filter (\<lambda>x. username x = u) (users w') = []"
      using assms(4) that by simp
    have "bnd (user_to_register channel u p) (issue_and_log env request) w' =
      (Ret \<lparr>code = None, detail = None,
            resp_data = Some ([''refresh'' \<mapsto> JStr (fst (for_user env bound)),
                               ''access'' \<mapsto> JStr (snd (for_user env bound))]
                              ++ get_token_lifetime env nu)\<rparr>,
       w'\<lparr>trace := trace w' @ [Ev_create_user u p, Ev_for_user bound, Ev_user_save nu names,
                               Ev_login_log_save (Some nu) d],
          users := users w @ [nu]\<rparr>)"
      unfolding register_new_user_eq [OF none refl refl refl refl refl refl]
      using assms(5) that
      by (simp add: created_def dopt_def names_def bound_def nu_def)
    with assms(1-4) that show ?thesis
      by (simp add: RegisterView_post_enabled channel_def)
  qed
  have bound: "bound = nu\<lparr>last_login := None\<rparr>"
    by (simp add: nu_def bound_def created_def)
  have "users (after (RegisterView_post conf env request) w) = users w @ [nu]"
    by (simp add: after_def run)
  moreover have "username nu = u" "password nu = p" "last_login nu = Some (clock w)"
    by (simp_all add: nu_def bound_def created_def)
  moreover have "calls (RegisterView_post conf env request) w =
             [Ev_create_user u p, Ev_for_user (nu\<lparr>last_login := None\<rparr>),
              Ev_user_save nu names, Ev_login_log_save (Some nu) d]"
    by (simp add: calls_def run bound)
  moreover have "''last_login'' \<in> set names"
    by (simp add: names_def)
  moreover have "status d"
    using validated_login_log_status [OF assms(5)] by simp
  moreover have "outcome (RegisterView_post conf env request) w =
             Ret \<lparr>code = None, detail = None,
                  resp_data = Some ([''refresh'' \<mapsto> JStr (fst (for_user env (nu\<lparr>last_login := None\<rparr>))),
                                     ''access'' \<mapsto> JStr (snd (for_user env (nu\<lparr>last_login := None\<rparr>)))]
                                    ++ get_token_lifetime env nu)\<rparr>"
    by (simp add: outcome_def run bound)
  ultimately show ?thesis by blast
qed

text \<open>Bob registers from 5.6.7.8 at time 1000; the department of code default has key 7.\<close>

theorem C9_registration_creates_user_and_logs_in_witness:
  "register_credentials sample_conf sample_deps (register_request ''long enough pw'') =
     Ret (''bob'', ''long enough pw'')
   \<and> check_password_rules sample_deps ''long enough pw''
   \<and> map username (users (after (RegisterView_post sample_conf sample_deps
        (register_request ''long enough pw'')) sample_world)) = [''alice'', ''bob'']
   \<and> map last_login (users (after (RegisterView_post sample_conf sample_deps
        (register_request ''long enough pw'')) sample_world)) = [None, Some 1000]
   \<and> length (filter is_audit_write (calls (RegisterView_post sample_conf sample_deps
        (register_request ''long enough pw'')) sample_world)) = 1
   \<and> returns (outcome (RegisterView_post sample_conf sample_deps
        (register_request ''long enough pw'')) sample_world)"
proof -
  have 1: "SECURITY_REGISTER_ACCESS_ENABLED sample_conf"
    by (simp add: sample_conf_def)
  have 2: "register_credentials sample_conf sample_deps (register_request ''long enough pw'') =
             Ret (''bob'', ''long enough pw'')"
    by (simp add: helper_defs sample_defs)
  have 3: "check_password_rules sample_deps ''long enough pw''"
    by (simp add: sample_defs)
  have 4: "filter (\<lambda>x. username x = ''bob'') (users sample_world) = []"
    by (simp add: sample_defs)
  have 5: "validated_login_log sample_deps (META (register_request ''long enough pw'')) USERNAME True =
             Ret \<lparr>ipaddress = ''5.6.7.8'', browser = ''Firefox'', system = ''Linux'', status = True,
                  agent = ''curl/8.0'', login_type = USERNAME\<rparr>"
    by (simp add: helper_defs sample_defs)
  have w: "map username (users sample_world) = [''alice'']" "map last_login (users sample_world) = [None]"
    "clock sample_world = 1000"
    by (simp_all add: sample_defs)
  from C9_registration_creates_user_and_logs_in [OF 1 2 3 4 5]
  obtain nu names where
    "users (after (RegisterView_post sample_conf sample_deps (register_request ''long enough pw''))
       sample_world) = users sample_world @ [nu]"
    "username nu = ''bob''" "last_login nu = Some (clock sample_world)"
    "calls (RegisterView_post sample_conf sample_deps (register_request ''long enough pw'')) sample_world =
       [Ev_create_user ''bob'' ''long enough pw'', Ev_for_user (nu\<lparr>last_login := None\<rparr>),
        Ev_user_save nu names,
        Ev_login_log_save (Some nu)
          \<lparr>ipaddress = ''5.6.7.8'', browser = ''Firefox'', system = ''Linux'', status = True,
           agent = ''curl/8.0'', login_type = USERNAME\<rparr>]"
    "returns (outcome (RegisterView_post sample_conf sample_deps (register_request ''long enough pw''))
       sample_world)"
    by auto
  with 2 3 w show ?thesis by simp
qed

text \<open>
  The claim as stated fails for a registration without a \<^verbatim>\<open>User-Agent\<close> header: every
  check passes, bob is created and saved, and the request raises \<^verbatim>\<open>KeyError\<close> with no
  audit record written.
\<close>

theorem C9_no_user_agent_counterexample:
  "SECURITY_REGISTER_ACCESS_ENABLED sample_conf
   \<and> register_credentials sample_conf sample_deps (register_request_no_agent ''long enough pw'') =
       Ret (''bob'', ''long enough pw'')
   \<and> check_password_rules sample_deps ''long enough pw''
   \<and> filter (\<lambda>x. username x = ''bob'') (users sample_world) = []
   \<and> outcome (RegisterView_post sample_conf sample_deps (register_request_no_agent ''long enough pw''))
        sample_world = Raise (KeyError ''HTTP_USER_AGENT'')
   \<and> map username (users (after (RegisterView_post sample_conf sample_deps
        (register_request_no_agent ''long enough pw'')) sample_world)) = [''alice'', ''bob'']
   \<and> \<not> list_ex is_audit_write (calls (RegisterView_post sample_conf sample_deps
        (register_request_no_agent ''long enough pw'')) sample_world)"
proof -
  have none: "filter (\<lambda>x. username x = ''bob'') (users w) = []"
    if "users w = [alice]" for w :: "block_ledger world"
    using that by (simp add: alice_def)
  have v: "validated_login_log sample_deps (META (register_request_no_agent ''long enough pw'')) USERNAME True =
             Raise (KeyError ''HTTP_USER_AGENT'')"
    by (simp add: helper_defs sample_defs)
  have c: "register_credentials sample_conf sample_deps (register_request_no_agent ''long enough pw'') =
       Ret (''bob'', ''long enough pw'')"
    by (simp add: helper_defs sample_defs)
  have r: "check_password_rules sample_deps ''long enough pw''"
    by (simp add: sample_defs)
  have e: "SECURITY_REGISTER_ACCESS_ENABLED sample_conf"
    by (simp add: sample_conf_def)
  have u: "users sample_world = [alice]" "users (sample_world\<lparr>trace := []\<rparr>) = [alice]"
    by (simp_all add: sample_world_def)
  show ?thesis
    using e c r v none [OF u(1)]
    by (simp add: outcome_def after_def calls_def RegisterView_post_enabled
        register_new_user_eq [OF none [OF u(1)] refl refl refl refl refl refl]
        register_new_user_eq [OF none [OF u(2)] refl refl refl refl refl refl]
        u alice_def del: filter_empty_conv)
qed

text \<open>
  C10. A registration request whose password (as the decoder returns it) fails the
  password-security rules is answered with application code 1001, and so is every
  request while registration is disabled: the two failure kinds carry the same code
  and differ only in the detail.
\<close>

theorem C10_password_rule_failure_shares_code_1001:
  "(\<not> SECURITY_REGISTER_ACCESS_ENABLED conf \<longrightarrow>
      outcome (RegisterView_post conf env request) w =
        Ret \<lparr>code = Some 1001, detail = Some ''Registration forbidden'', resp_data = None\<rparr>)
   \<and> (SECURITY_REGISTER_ACCESS_ENABLED conf
        \<and> register_credentials conf env request = Ret (u, p)
        \<and> \<not> check_password_rules env p \<longrightarrow>
      outcome (RegisterView_post conf env request) w =
        Ret \<lparr>code = Some 1001, detail = Some ''Password does not match security rules'',
             resp_data = None\<rparr>)"
  by (simp add: outcome_def RegisterView_post_disabled RegisterView_post_enabled)

text \<open>Bob registers with a five-letter password; then registration is switched off.\<close>

theorem C10_password_rule_failure_shares_code_1001_witness:
  "register_credentials sample_conf sample_deps (register_request ''short'') = Ret (''bob'', ''short'')
   \<and> \<not> check_password_rules sample_deps ''short''
   \<and> outcome (RegisterView_post sample_conf sample_deps (register_request ''short'')) sample_world =
       Ret \<lparr>code = Some 1001, detail = Some ''Password does not match security rules'',
            resp_data = None\<rparr>
   \<and> outcome (RegisterView_post (sample_conf\<lparr>SECURITY_REGISTER_ACCESS_ENABLED := False\<rparr>) sample_deps
        (register_request ''long enough pw'')) sample_world =
       Ret \<lparr>code = Some 1001, detail = Some ''Registration forbidden'', resp_data = None\<rparr>"
proof -
  have c: "register_credentials sample_conf sample_deps (register_request ''short'') = Ret (''bob'', ''short'')"
    by (simp add: helper_defs sample_defs)
  have r: "\<not> check_password_rules sample_deps ''short''"
    by (simp add: sample_defs)
  have e: "SECURITY_REGISTER_ACCESS_ENABLED sample_conf"
    "\<not> SECURITY_REGISTER_ACCESS_ENABLED (sample_conf\<lparr>SECURITY_REGISTER_ACCESS_ENABLED := False\<rparr>)"
    by (simp_all add: sample_conf_def)
  from C10_password_rule_failure_shares_code_1001
         [of sample_conf sample_deps "register_request ''short''" sample_world "''bob''" "''short''"]
       C10_password_rule_failure_shares_code_1001
         [of "sample_conf\<lparr>SECURITY_REGISTER_ACCESS_ENABLED := False\<rparr>" sample_deps
             "register_request ''long enough pw''" sample_world "''bob''" "''short''"]
       c r e
  show ?thesis by simp
qed

end
